theory Spec2Isabelle
  imports Complex_Main "HOL-Library.Char_ord" "HOL-Library.List_Lexorder"
begin

section \<open>Data model\<close>

text \<open>
  \<^verbatim>\<open>ad_targeting_segment_info.h\<close>: a segment is a \<^verbatim>\<open>std::string\<close>, a segment list a
  \<^verbatim>\<open>std::vector<std::string>\<close>, and \<^verbatim>\<open>SegmentsInfo\<close> holds one list per targeting model.
\<close>

type_synonym Segment = string
type_synonym SegmentList = "Segment list"

record SegmentsInfo =
  text_classification_segments :: SegmentList
  epsilon_greedy_bandit_segments :: SegmentList
  purchase_intent_segments :: SegmentList

section \<open>Segment resolver (\<^verbatim>\<open>ad_targeting.cc\<close>)\<close>

text \<open>
  Modelled from the spec: \<^verbatim>\<open>GetParentSegments\<close> lives in
  \<^verbatim>\<open>ad_targeting_segment_util.h\<close>, which is not among the sources. Section 4.1: for every
  segment containing a \<^verbatim>\<open>-\<close> separator, emit only the substring before the first \<^verbatim>\<open>-\<close>;
  segments without a separator pass through unchanged; input order is preserved and
  nothing is deduplicated.
\<close>

definition GetParentSegment :: "Segment \<Rightarrow> Segment" where
  "GetParentSegment segment = takeWhile (\<lambda>c. c \<noteq> CHR ''-'') segment"

definition GetParentSegments :: "SegmentList \<Rightarrow> SegmentList" where
  "GetParentSegments segments = map GetParentSegment segments"

definition kTopTextClassificationSegmentCount :: int where
  "kTopTextClassificationSegmentCount = 3"

text \<open>
  \<^verbatim>\<open>FilterSegments\<close>: the range-for loop with its two locals \<^verbatim>\<open>count\<close> and
  \<^verbatim>\<open>top_segments\<close>. \<^verbatim>\<open>continue\<close> keeps both, \<^verbatim>\<open>break\<close> returns. The filter-list lookup
  \<^verbatim>\<open>ShouldFilterSegment\<close> is an external collaborator and is passed in. The counter is a C++
  \<^verbatim>\<open>int\<close>; it is bounded by the length of the vector, so it is an unbounded \<open>int\<close> here.
\<close>

fun FilterSegments_loop ::
  "(Segment \<Rightarrow> bool) \<Rightarrow> int \<Rightarrow> SegmentList \<Rightarrow> int \<Rightarrow> SegmentList \<Rightarrow> SegmentList" where
  "FilterSegments_loop ShouldFilterSegment max_count [] count top_segments = top_segments"
| "FilterSegments_loop ShouldFilterSegment max_count (segment # rest) count top_segments =
     (if ShouldFilterSegment segment
      then FilterSegments_loop ShouldFilterSegment max_count rest count top_segments
      else if count + 1 = max_count
        then top_segments @ [segment]
        else FilterSegments_loop ShouldFilterSegment max_count rest (count + 1)
               (top_segments @ [segment]))"

definition FilterSegments :: "(Segment \<Rightarrow> bool) \<Rightarrow> SegmentList \<Rightarrow> int \<Rightarrow> SegmentList" where
  "FilterSegments ShouldFilterSegment segments max_count =
     FilterSegments_loop ShouldFilterSegment max_count segments 0 []"

text \<open>
  \<^verbatim>\<open>GetTopSegments\<close>, with the conditional operator as the source has it: the raw
  text-classification segments when \<^verbatim>\<open>for_parent\<close> is true, their parents otherwise.
\<close>

definition GetTopSegments :: "(Segment \<Rightarrow> bool) \<Rightarrow> SegmentsInfo \<Rightarrow> bool \<Rightarrow> SegmentList" where
  "GetTopSegments ShouldFilterSegment segments for_parent =
     (let text_classification_segments_0 =
            (if for_parent then text_classification_segments segments
             else GetParentSegments (text_classification_segments segments));
          filtered_text_classification_segments =
            FilterSegments ShouldFilterSegment text_classification_segments_0
              kTopTextClassificationSegmentCount
      in filtered_text_classification_segments
           @ epsilon_greedy_bandit_segments segments
           @ purchase_intent_segments segments)"

definition GetTopParentChildSegments :: "(Segment \<Rightarrow> bool) \<Rightarrow> SegmentsInfo \<Rightarrow> SegmentList" where
  "GetTopParentChildSegments ShouldFilterSegment segments =
     GetTopSegments ShouldFilterSegment segments False"

definition GetTopParentSegments :: "(Segment \<Rightarrow> bool) \<Rightarrow> SegmentsInfo \<Rightarrow> SegmentList" where
  "GetTopParentSegments ShouldFilterSegment segments =
     GetTopSegments ShouldFilterSegment segments True"

section \<open>Creative ads, ad events, browsing history\<close>

text \<open>
  Modelled from the spec: \<^verbatim>\<open>CreativeAdInfo\<close> (and its subclass
  \<^verbatim>\<open>CreativeInlineContentAdInfo\<close>) is declared in a header that is not among the
  sources. Section 3 gives its fields; the ones the code under study reads are kept:
  the four identifiers, the single targeting segment, \<^verbatim>\<open>priority\<close> (an integer, lower is
  higher priority, 0 is unset) and \<^verbatim>\<open>ptr\<close> (a \<^verbatim>\<open>double\<close>, taken as a real number). Caps,
  time window, geo-targets and day-parts are read only by the external exclusion rules.
\<close>

record CreativeAdInfo =
  creative_instance_id :: string
  creative_set_id :: string
  campaign_id :: string
  advertiser_id :: string
  segment :: Segment
  priority :: int
  ptr :: real

type_synonym CreativeAdList = "CreativeAdInfo list"

text \<open>
  The default-constructed \<^verbatim>\<open>CreativeAdInfo()\<close>: every \<^verbatim>\<open>std::string\<close> member is empty and
  the numbers are zero. Only its \<^verbatim>\<open>creative_instance_id\<close> is ever read.
\<close>

definition CreativeAdInfo_default :: CreativeAdInfo where
  "CreativeAdInfo_default =
     \<lparr>creative_instance_id = [], creative_set_id = [], campaign_id = [],
      advertiser_id = [], segment = [], priority = 0, ptr = 0\<rparr>"

text \<open>
  Modelled from the spec: \<^verbatim>\<open>AdEventInfo\<close> and the browsing history entry are declared
  outside the sources; section 3 lists their fields. Both lists are only handed on to the
  collaborators.
\<close>

record AdEventInfo =
  event_creative_instance_id :: string
  event_creative_set_id :: string
  event_advertiser_id :: string
  event_campaign_id :: string
  event_type :: string
  event_timestamp :: int

type_synonym AdEventList = "AdEventInfo list"

record BrowsingHistoryEntry =
  url :: string
  visited_at :: int

type_synonym BrowsingHistoryList = "BrowsingHistoryEntry list"

section \<open>Errors\<close>

text \<open>
  \<^verbatim>\<open>DCheckFailed\<close>: a \<^verbatim>\<open>DCHECK\<close> of the source does not hold. \<^verbatim>\<open>OutOfRange\<close>:
  \<^verbatim>\<open>std::vector::at\<close> is called with an index past the end. \<^verbatim>\<open>DivisionByZero\<close>: a
  division whose divisor is zero; C++ would produce an infinity or a NaN there and HOL
  would produce 0, so the model reports it, and its absence becomes a theorem.
\<close>

datatype error = DCheckFailed | OutOfRange | DivisionByZero

definition bind_result :: "error + 'a \<Rightarrow> ('a \<Rightarrow> error + 'b) \<Rightarrow> error + 'b" where
  "bind_result r f = (case r of Inl e \<Rightarrow> Inl e | Inr x \<Rightarrow> f x)"

definition vector_at :: "'a list \<Rightarrow> nat \<Rightarrow> error + 'a" where
  "vector_at xs i = (if i < length xs then Inr (xs ! i) else Inl OutOfRange)"

definition checked_div :: "real \<Rightarrow> real \<Rightarrow> error + real" where
  "checked_div x y = (if y = 0 then Inl DivisionByZero else Inr (x / y))"

section \<open>External collaborators of the eligibility pipeline\<close>

text \<open>
  The in-process calls of section 6 that \<^verbatim>\<open>eligible_inline_content_ads.cc\<close> makes and whose
  code is outside the sources, collected in one record:
  \<^item> \<^verbatim>\<open>GetAll\<close>: the ad-event store's answer, a success flag and the events;
  \<^item> \<^verbatim>\<open>GetBrowsingHistory\<close> and the two feature parameters it is called with;
  \<^item> \<^verbatim>\<open>GetForDimensions\<close> and \<^verbatim>\<open>GetForSegmentsAndDimensions\<close>: the creative store; the
    second also hands back a segment list, which the callbacks of the source bind to
    the name \<^verbatim>\<open>segments\<close>;
  \<^item> \<^verbatim>\<open>ShouldExcludeAd\<close>: the exclusion rule set built from the subdivision targeting,
    the anti-targeting resource, the ad events and the browsing history;
  \<^item> \<^verbatim>\<open>seen_advertisers\<close>, \<^verbatim>\<open>seen_ads\<close>: the client's memory of advertiser ids and
    creative instance ids already served in the current rotation;
  \<^item> \<^verbatim>\<open>ShouldPaceAd\<close>: the pacing decision for one ad during this call.
\<close>

record Collaborators =
  GetAll :: "bool \<times> AdEventList"
  GetBrowsingHistoryMaxCount :: int
  GetBrowsingHistoryDaysAgo :: int
  GetBrowsingHistory :: "int \<Rightarrow> int \<Rightarrow> BrowsingHistoryList"
  GetForDimensions :: "string \<Rightarrow> bool \<times> CreativeAdList"
  GetForSegmentsAndDimensions :: "SegmentList \<Rightarrow> string \<Rightarrow> bool \<times> SegmentList \<times> CreativeAdList"
  ShouldExcludeAd :: "AdEventList \<Rightarrow> BrowsingHistoryList \<Rightarrow> CreativeAdInfo \<Rightarrow> bool"
  seen_advertisers :: "string list"
  seen_ads :: "string list"
  ShouldPaceAd :: "CreativeAdInfo \<Rightarrow> bool"

text \<open>The engine's one piece of state, the member \<^verbatim>\<open>last_served_creative_ad_\<close>.\<close>

record EligibleAds =
  last_served_creative_ad :: CreativeAdInfo

definition SetLastServedAd :: "EligibleAds \<Rightarrow> CreativeAdInfo \<Rightarrow> EligibleAds" where
  "SetLastServedAd e creative_ad_0 = e\<lparr>last_served_creative_ad := creative_ad_0\<rparr>"

section \<open>Pipeline stages whose code is outside the sources\<close>

text \<open>
  Modelled from the spec: \<^verbatim>\<open>FilterSeenAdvertisersAndRoundRobinIfNeeded\<close>
  (\<^verbatim>\<open>seen_advertisers.h\<close>) is not among the sources. Section 4.3, stage 1: if every
  candidate's advertiser has already been served within the current rotation, the seen
  memory is cleared and the full list is retried, otherwise the ads whose advertiser was
  already served are dropped. The list the call returns is modelled; the clearing of the
  client's memory is not.
\<close>

definition FilterSeenAdvertisersAndRoundRobinIfNeeded ::
  "Collaborators \<Rightarrow> CreativeAdList \<Rightarrow> CreativeAdList" where
  "FilterSeenAdvertisersAndRoundRobinIfNeeded c ads =
     (let unseen = filter (\<lambda>ad. advertiser_id ad \<notin> set (seen_advertisers c)) ads
      in if unseen = [] then ads else unseen)"

text \<open>
  Modelled from the spec: \<^verbatim>\<open>FilterSeenAdsAndRoundRobinIfNeeded\<close> (\<^verbatim>\<open>seen_ads.h\<close>) is not
  among the sources. Section 4.3, stage 2: the same policy at the granularity of the
  individual ad.
\<close>

definition FilterSeenAdsAndRoundRobinIfNeeded ::
  "Collaborators \<Rightarrow> CreativeAdList \<Rightarrow> CreativeAdList" where
  "FilterSeenAdsAndRoundRobinIfNeeded c ads =
     (let unseen = filter (\<lambda>ad. creative_instance_id ad \<notin> set (seen_ads c)) ads
      in if unseen = [] then ads else unseen)"

text \<open>
  Modelled from the spec: \<^verbatim>\<open>PaceAds\<close> (\<^verbatim>\<open>ad_pacing.h\<close>) is not among the sources. Section
  4.3, stage 4: ads that pacing throttles are dropped for this call. The spec leaves the
  throttling function open; it is the collaborator \<^verbatim>\<open>ShouldPaceAd\<close>, one decision per ad.
\<close>

definition PaceAds :: "Collaborators \<Rightarrow> CreativeAdList \<Rightarrow> CreativeAdList" where
  "PaceAds c ads = filter (\<lambda>ad. \<not> ShouldPaceAd c ad) ads"

text \<open>
  Modelled from the spec: \<^verbatim>\<open>PrioritizeAds\<close> (\<^verbatim>\<open>ad_priority.h\<close>) is not among the sources.
  Section 4.3, stage 5: candidates are grouped by their priority value, ascending being
  higher priority, and only the highest-priority group with a candidate advances.
\<close>

fun highest_priority :: "CreativeAdList \<Rightarrow> int" where
  "highest_priority [] = 0"
| "highest_priority [ad] = priority ad"
| "highest_priority (ad # rest) = min (priority ad) (highest_priority rest)"

definition PrioritizeAds :: "CreativeAdList \<Rightarrow> CreativeAdList" where
  "PrioritizeAds ads = filter (\<lambda>ad. priority ad = highest_priority ads) ads"

section \<open>Eligibility pipeline (\<^verbatim>\<open>eligible_inline_content_ads.cc\<close>)\<close>

definition ShouldCapLastServedAd :: "CreativeAdList \<Rightarrow> bool" where
  "ShouldCapLastServedAd ads = (length ads \<noteq> 1)"

text \<open>
  \<^verbatim>\<open>ApplyFrequencyCapping\<close>: \<^verbatim>\<open>std::remove_if\<close> followed by \<^verbatim>\<open>erase\<close> keeps, in order, the
  ads for which the predicate is false.
\<close>

definition ApplyFrequencyCapping ::
  "Collaborators \<Rightarrow> CreativeAdList \<Rightarrow> CreativeAdInfo \<Rightarrow> AdEventList \<Rightarrow> BrowsingHistoryList
     \<Rightarrow> CreativeAdList" where
  "ApplyFrequencyCapping c ads last_served ad_events browsing_history =
     filter (\<lambda>ad. \<not> (ShouldExcludeAd c ad_events browsing_history ad
                      \<or> creative_instance_id ad = creative_instance_id last_served)) ads"

definition FilterIneligibleAds ::
  "Collaborators \<Rightarrow> EligibleAds \<Rightarrow> CreativeAdList \<Rightarrow> AdEventList \<Rightarrow> BrowsingHistoryList
     \<Rightarrow> CreativeAdList" where
  "FilterIneligibleAds c e ads ad_events browsing_history =
     (if ads = [] then []
      else
        let eligible_ads_1 = FilterSeenAdvertisersAndRoundRobinIfNeeded c ads;
            eligible_ads_2 = FilterSeenAdsAndRoundRobinIfNeeded c eligible_ads_1;
            eligible_ads_3 =
              ApplyFrequencyCapping c eligible_ads_2
                (if ShouldCapLastServedAd ads then last_served_creative_ad e
                 else CreativeAdInfo_default)
                ad_events browsing_history;
            eligible_ads_4 = PaceAds c eligible_ads_3;
            eligible_ads_5 = PrioritizeAds eligible_ads_4
        in eligible_ads_5)"

section \<open>Selection by segments: the cascade\<close>

text \<open>
  Every path of \<^verbatim>\<open>GetForSegments\<close> invokes the callback exactly once; the model returns
  what the callback receives, \<^verbatim>\<open>was_allowed\<close> and the ad list, together with the log of
  the queries sent to the creative store, oldest first. The asynchronous completions are
  the collaborators' answers.
\<close>

datatype StoreQuery =
  ForDimensions string
  | ForSegmentsAndDimensions SegmentList string

type_synonym 'a Outcome = "error + (StoreQuery list \<times> bool \<times> 'a)"

definition logged :: "StoreQuery \<Rightarrow> 'a Outcome \<Rightarrow> 'a Outcome" where
  "logged q r = bind_result r (\<lambda>(qs, res). Inr (q # qs, res))"






section \<open>Predictor (\<^verbatim>\<open>eligible_ads_predictor_util.h\<close>)\<close>

text \<open>
  Modelled from the spec: \<^verbatim>\<open>AdPredictorInfo<T>\<close> is declared in \<^verbatim>\<open>ad_predictor_info.h\<close>,
  which is not among the sources. Section 3: it wraps a creative ad, the segment list the
  ad targets, four match flags, the two hours-ago values and the score. The member names
  are the ones the source reads and writes. The hours are the \<^verbatim>\<open>int\<close> that
  \<^verbatim>\<open>TimeDelta::InHours\<close> returns, the score is a \<^verbatim>\<open>double\<close>, taken as a real number.
\<close>

record AdPredictorInfo =
  creative_ad :: CreativeAdInfo
  segments :: SegmentList
  does_match_intent_child_segments :: bool
  does_match_intent_parent_segments :: bool
  does_match_interest_child_segments :: bool
  does_match_interest_parent_segments :: bool
  ad_last_seen_hours_ago :: int
  advertiser_last_seen_hours_ago :: int
  score :: real

text \<open>
  \<^verbatim>\<open>std::map<std::string, AdPredictorInfo<T>>\<close>: an association list kept in ascending key
  order with unique keys, which is the order the range-for of the source visits.
  \<^verbatim>\<open>std::map::insert\<close> leaves the map unchanged when the key is present.
\<close>

type_synonym CreativeAdPredictorMap = "(string \<times> AdPredictorInfo) list"

fun map_insert :: "string \<Rightarrow> 'v \<Rightarrow> (string \<times> 'v) list \<Rightarrow> (string \<times> 'v) list" where
  "map_insert k v [] = [(k, v)]"
| "map_insert k v ((k', v') # rest) =
     (if k = k' then (k', v') # rest
      else if k < k' then (k, v) # (k', v') # rest
      else (k', v') # map_insert k v rest)"

text \<open>
  The collaborators of the predictor, all outside the sources:
  \<^item> \<^verbatim>\<open>GetAdPredictorWeights\<close>: the weight vector of the feature provider;
  \<^item> \<^verbatim>\<open>Now\<close>: \<^verbatim>\<open>base::Time::Now()\<close>, and \<^verbatim>\<open>InHours\<close>: the whole hours of a time difference;
  \<^item> \<^verbatim>\<open>GetLastSeenAdTime\<close>, \<^verbatim>\<open>GetLastSeenAdvertiserTime\<close>: the time of the most recent
    matching ad event, if any;
  \<^item> \<^verbatim>\<open>SampleFromAds\<close>: the sampler's draw from a scored map.
\<close>

record PredictorCollaborators =
  GetAdPredictorWeights :: "real list"
  Now :: int
  InHours :: "int \<Rightarrow> int"
  GetLastSeenAdTime :: "AdEventList \<Rightarrow> CreativeAdInfo \<Rightarrow> int option"
  GetLastSeenAdvertiserTime :: "AdEventList \<Rightarrow> CreativeAdInfo \<Rightarrow> int option"
  SampleFromAds :: "CreativeAdPredictorMap \<Rightarrow> CreativeAdInfo option"

text \<open>The enumeration \<^verbatim>\<open>AdPredictorWeightIndex\<close>, as the indices it stands for.\<close>

definition kMatchesIntentChildSegment :: nat where "kMatchesIntentChildSegment = 0"
definition kMatchesIntentParentSegment :: nat where "kMatchesIntentParentSegment = 1"
definition kMatchesInterestChildSegment :: nat where "kMatchesInterestChildSegment = 2"
definition kMatchesInterestParentSegment :: nat where "kMatchesInterestParentSegment = 3"
definition kAdLastSeenInHours :: nat where "kAdLastSeenInHours = 4"
definition kAdvertiserLastSeenInHours :: nat where "kAdvertiserLastSeenInHours = 5"
definition kPriority :: nat where "kPriority = 6"

definition kHoursPerDay :: int where "kHoursPerDay = 24"

text \<open>
  Modelled from the spec: \<^verbatim>\<open>SetIntersection\<close> is declared in \<^verbatim>\<open>container_util.h\<close>, which
  is not among the sources. Section 4.4 reads it as set intersection: the elements of the
  first list that also occur in the second. The source only asks whether it is empty.
\<close>

definition SetIntersection :: "SegmentList \<Rightarrow> SegmentList \<Rightarrow> SegmentList" where
  "SetIntersection lhs rhs = filter (\<lambda>x. x \<in> set rhs) lhs"

definition ComputePredictorFeatures ::
  "PredictorCollaborators \<Rightarrow> AdPredictorInfo \<Rightarrow> AdEventList \<Rightarrow> SegmentList \<Rightarrow> SegmentList
     \<Rightarrow> AdPredictorInfo" where
  "ComputePredictorFeatures pc ad_predictor ad_events interest_segments intent_segments =
     (let intent_child_segments_intersection =
            SetIntersection intent_segments (segments ad_predictor);
          mutable_1 = ad_predictor\<lparr>does_match_intent_child_segments :=
            (if intent_child_segments_intersection = [] then False else True)\<rparr>;
          parent_intent_segments = GetParentSegments interest_segments;
          intent_parent_segments_intersection =
            SetIntersection parent_intent_segments (segments ad_predictor);
          mutable_2 = mutable_1\<lparr>does_match_intent_parent_segments :=
            (if intent_parent_segments_intersection = [] then False else True)\<rparr>;
          interest_child_segments_intersection =
            SetIntersection interest_segments (segments ad_predictor);
          mutable_3 = mutable_2\<lparr>does_match_interest_child_segments :=
            (if interest_child_segments_intersection = [] then False else True)\<rparr>;
          parent_interest_segments = GetParentSegments interest_segments;
          interest_parent_segments_intersection =
            SetIntersection parent_interest_segments (segments ad_predictor);
          mutable_4 = mutable_3\<lparr>does_match_interest_parent_segments :=
            (if interest_parent_segments_intersection = [] then False else True)\<rparr>;
          now = Now pc;
          last_seen_ad = GetLastSeenAdTime pc ad_events (creative_ad ad_predictor);
          mutable_5 = mutable_4\<lparr>ad_last_seen_hours_ago :=
            (case last_seen_ad of Some t \<Rightarrow> InHours pc (now - t) | None \<Rightarrow> 0)\<rparr>;
          last_seen_advertiser =
            GetLastSeenAdvertiserTime pc ad_events (creative_ad ad_predictor);
          mutable_6 = mutable_5\<lparr>advertiser_last_seen_hours_ago :=
            (case last_seen_advertiser of Some t \<Rightarrow> InHours pc (now - t) | None \<Rightarrow> 0)\<rparr>
      in mutable_6)"

text \<open>
  \<^verbatim>\<open>ComputePredictorScore\<close>: the local \<^verbatim>\<open>score\<close> after each of the five statements that
  may add to it, then the multiplication by \<^verbatim>\<open>ptr\<close>. Each \<^verbatim>\<open>weights.at\<close> may fail, and each
  division is checked. The weights are passed in; the caller takes them from
  \<^verbatim>\<open>features::GetAdPredictorWeights\<close>.
\<close>

definition ComputePredictorScore :: "real list \<Rightarrow> AdPredictorInfo \<Rightarrow> error + real" where
  "ComputePredictorScore weights ad_predictor =
     bind_result
       (if does_match_intent_child_segments ad_predictor
        then bind_result (vector_at weights kMatchesIntentChildSegment) (\<lambda>w. Inr (0 + w))
        else if does_match_intent_parent_segments ad_predictor
        then bind_result (vector_at weights kMatchesIntentParentSegment) (\<lambda>w. Inr (0 + w))
        else Inr 0)
     (\<lambda>score_1. bind_result
       (if does_match_interest_child_segments ad_predictor
        then bind_result (vector_at weights kMatchesInterestChildSegment)
               (\<lambda>w. Inr (score_1 + w))
        else if does_match_interest_parent_segments ad_predictor
        then bind_result (vector_at weights kMatchesInterestParentSegment)
               (\<lambda>w. Inr (score_1 + w))
        else Inr score_1)
     (\<lambda>score_2. bind_result
       (if ad_last_seen_hours_ago ad_predictor \<le> kHoursPerDay
        then bind_result (vector_at weights kAdLastSeenInHours) (\<lambda>w.
             bind_result
               (checked_div (w * real_of_int (ad_last_seen_hours_ago ad_predictor))
                  (real_of_int kHoursPerDay))
               (\<lambda>term. Inr (score_2 + term)))
        else Inr score_2)
     (\<lambda>score_3. bind_result
       (if advertiser_last_seen_hours_ago ad_predictor \<le> kHoursPerDay
        then bind_result (vector_at weights kAdvertiserLastSeenInHours) (\<lambda>w.
             bind_result
               (checked_div (w * real_of_int (advertiser_last_seen_hours_ago ad_predictor))
                  (real_of_int kHoursPerDay))
               (\<lambda>term. Inr (score_3 + term)))
        else Inr score_3)
     (\<lambda>score_4. bind_result
       (if priority (creative_ad ad_predictor) > 0
        then bind_result (vector_at weights kPriority) (\<lambda>w.
             bind_result
               (checked_div w (real_of_int (priority (creative_ad ad_predictor))))
               (\<lambda>term. Inr (score_4 + term)))
        else Inr score_4)
     (\<lambda>score_5. Inr (score_5 * ptr (creative_ad ad_predictor)))))))"

text \<open>
  \<^verbatim>\<open>ComputePredictorFeaturesAndScores\<close>: the loop over the input map in key order, with the
  output map as accumulator; a failing score computation ends the loop.
\<close>

fun ComputePredictorFeaturesAndScores_loop ::
  "PredictorCollaborators \<Rightarrow> CreativeAdPredictorMap \<Rightarrow> AdEventList \<Rightarrow> SegmentList \<Rightarrow> SegmentList
     \<Rightarrow> CreativeAdPredictorMap \<Rightarrow> error + CreativeAdPredictorMap" where
  "ComputePredictorFeaturesAndScores_loop pc [] ad_events interest_segments intent_segments
     ads_with_features = Inr ads_with_features"
| "ComputePredictorFeaturesAndScores_loop pc (ad # rest) ad_events interest_segments
     intent_segments ads_with_features =
     (let ad_predictor = snd ad;
          mutable_ad_predictor =
            ComputePredictorFeatures pc ad_predictor ad_events interest_segments intent_segments
      in bind_result (ComputePredictorScore (GetAdPredictorWeights pc) mutable_ad_predictor)
           (\<lambda>s. ComputePredictorFeaturesAndScores_loop pc rest ad_events interest_segments
                  intent_segments
                  (map_insert (creative_instance_id (creative_ad mutable_ad_predictor))
                     (mutable_ad_predictor\<lparr>score := s\<rparr>) ads_with_features)))"

definition ComputePredictorFeaturesAndScores ::
  "PredictorCollaborators \<Rightarrow> CreativeAdPredictorMap \<Rightarrow> AdEventList \<Rightarrow> SegmentList \<Rightarrow> SegmentList
     \<Rightarrow> error + CreativeAdPredictorMap" where
  "ComputePredictorFeaturesAndScores pc ads ad_events interest_segments intent_segments =
     ComputePredictorFeaturesAndScores_loop pc ads ad_events interest_segments
       intent_segments []"

section \<open>Selection by predictor scores\<close>

text \<open>
  Modelled from the spec: \<^verbatim>\<open>GroupEligibleAdsByCreativeInstanceId\<close> is declared in
  \<^verbatim>\<open>eligible_ads_util.h\<close>, which is not among the sources. Section 4.6 groups the survivors
  by instance id, and by section 3 a predictor wraps a creative ad and the segment list it
  targets: the first ad of an instance id opens its predictor, a later ad of the same
  instance id adds its segment.
\<close>

definition new_ad_predictor :: "CreativeAdInfo \<Rightarrow> AdPredictorInfo" where
  "new_ad_predictor ad =
     \<lparr>creative_ad = ad, segments = [segment ad],
      does_match_intent_child_segments = False, does_match_intent_parent_segments = False,
      does_match_interest_child_segments = False, does_match_interest_parent_segments = False,
      ad_last_seen_hours_ago = 0, advertiser_last_seen_hours_ago = 0, score = 0\<rparr>"

fun GroupEligibleAds_loop :: "CreativeAdList \<Rightarrow> CreativeAdPredictorMap \<Rightarrow> CreativeAdPredictorMap" where
  "GroupEligibleAds_loop [] ads = ads"
| "GroupEligibleAds_loop (ad # rest) ads =
     (if creative_instance_id ad \<in> fst ` set ads
      then GroupEligibleAds_loop rest
             (map (\<lambda>(k, p). if k = creative_instance_id ad
                             then (k, p\<lparr>segments := segments p @ [segment ad]\<rparr>) else (k, p)) ads)
      else GroupEligibleAds_loop rest
             (map_insert (creative_instance_id ad) (new_ad_predictor ad) ads))"

definition GroupEligibleAdsByCreativeInstanceId :: "CreativeAdList \<Rightarrow> CreativeAdPredictorMap" where
  "GroupEligibleAdsByCreativeInstanceId eligible_ads = GroupEligibleAds_loop eligible_ads []"

definition ChooseAd ::
  "PredictorCollaborators \<Rightarrow> CreativeAdList \<Rightarrow> AdEventList \<Rightarrow> SegmentList \<Rightarrow> SegmentList
     \<Rightarrow> (CreativeAdInfo option) Outcome" where
  "ChooseAd pc eligible_ads ad_events interest_segments intent_segments =
     (if eligible_ads = [] then Inl DCheckFailed
      else
        let ads = GroupEligibleAdsByCreativeInstanceId eligible_ads
        in bind_result
             (ComputePredictorFeaturesAndScores pc ads ad_events interest_segments
                intent_segments)
             (\<lambda>ads_with_features.
                let ad = SampleFromAds pc ads_with_features
                in Inr ([], True, ad)))"

definition GetEligibleAds ::
  "Collaborators \<Rightarrow> PredictorCollaborators \<Rightarrow> EligibleAds \<Rightarrow> SegmentList \<Rightarrow> SegmentList
     \<Rightarrow> AdEventList \<Rightarrow> BrowsingHistoryList \<Rightarrow> string \<Rightarrow> (CreativeAdInfo option) Outcome" where
  "GetEligibleAds c pc e interest_segments intent_segments ad_events browsing_history
     dimensions =
     (case GetForDimensions c dimensions of
        (success, ads) \<Rightarrow>
          logged (ForDimensions dimensions)
            (if \<not> success then Inr ([], False, None)
             else if ads = [] then Inr ([], True, None)
             else
               let eligible_ads =
                     ApplyFrequencyCapping c ads
                       (if ShouldCapLastServedAd ads then last_served_creative_ad e
                        else CreativeAdInfo_default)
                       ad_events browsing_history
               in if eligible_ads = [] then Inr ([], True, None)
                  else ChooseAd pc eligible_ads ad_events interest_segments intent_segments))"

definition GetFromAdPredictorScores ::
  "Collaborators \<Rightarrow> PredictorCollaborators \<Rightarrow> EligibleAds \<Rightarrow> SegmentList \<Rightarrow> SegmentList
     \<Rightarrow> string \<Rightarrow> (CreativeAdInfo option) Outcome" where
  "GetFromAdPredictorScores c pc e interest_segments intent_segments dimensions =
     (case GetAll c of
        (success, ad_events) \<Rightarrow>
          if \<not> success then Inr ([], False, None)
          else
            let max_count = GetBrowsingHistoryMaxCount c;
                days_ago = GetBrowsingHistoryDaysAgo c;
                history = GetBrowsingHistory c max_count days_ago
            in GetEligibleAds c pc e interest_segments intent_segments ad_events history
                 dimensions)"

section \<open>Concrete inputs\<close>

text \<open>
  A creative ad after the fixture of \<^verbatim>\<open>eligible_ad_notifications_unittest.cc\<close>, with its
  instance id, segment and priority chosen and \<^verbatim>\<open>ptr = 1.0\<close>; a creative store backed by a
  catalog, where every lookup succeeds, the store hands back the segments it was asked
  for together with the ads whose segment is among them, no exclusion rule fires, nothing
  has been seen and nothing is paced; an engine whose last served ad is given; and
  predictor collaborators with unit weights, no ad event seen, and a sampler that draws
  the entry with the greatest key.
\<close>

definition example_ad :: "string \<Rightarrow> Segment \<Rightarrow> int \<Rightarrow> CreativeAdInfo" where
  "example_ad instance_id seg prio =
     \<lparr>creative_instance_id = instance_id, creative_set_id = ''set-'' @ instance_id,
      campaign_id = ''campaign-'' @ instance_id, advertiser_id = ''advertiser-'' @ instance_id,
      segment = seg, priority = prio, ptr = 1\<rparr>"

definition example_collaborators :: "CreativeAdList \<Rightarrow> Collaborators" where
  "example_collaborators catalog =
     \<lparr>GetAll = (True, []),
      GetBrowsingHistoryMaxCount = 5000,
      GetBrowsingHistoryDaysAgo = 180,
      GetBrowsingHistory = (\<lambda>max_count days_ago. []),
      GetForDimensions = (\<lambda>dimensions. (True, catalog)),
      GetForSegmentsAndDimensions =
        (\<lambda>segs dimensions. (True, segs, filter (\<lambda>ad. segment ad \<in> set segs) catalog)),
      ShouldExcludeAd = (\<lambda>ad_events browsing_history ad. False),
      seen_advertisers = [],
      seen_ads = [],
      ShouldPaceAd = (\<lambda>ad. False)\<rparr>"

definition example_engine :: "CreativeAdInfo \<Rightarrow> EligibleAds" where
  "example_engine ad = \<lparr>last_served_creative_ad = ad\<rparr>"

definition example_predictor_collaborators :: PredictorCollaborators where
  "example_predictor_collaborators =
     \<lparr>GetAdPredictorWeights = [1, 1, 1, 1, 1, 1, 1],
      Now = 0,
      InHours = (\<lambda>delta. delta div 3600000000),
      GetLastSeenAdTime = (\<lambda>ad_events ad. None),
      GetLastSeenAdvertiserTime = (\<lambda>ad_events ad. None),
      SampleFromAds = (\<lambda>ads. if ads = [] then None else Some (creative_ad (snd (last ads))))\<rparr>"

lemmas example_defs =
  example_ad_def example_collaborators_def example_engine_def
  example_predictor_collaborators_def

lemmas pipeline_defs =
  FilterIneligibleAds_def FilterSeenAdvertisersAndRoundRobinIfNeeded_def
  FilterSeenAdsAndRoundRobinIfNeeded_def ApplyFrequencyCapping_def PaceAds_def
  PrioritizeAds_def ShouldCapLastServedAd_def CreativeAdInfo_default_def Let_def


lemmas weight_index_defs =
  kMatchesIntentChildSegment_def kMatchesIntentParentSegment_def
  kMatchesInterestChildSegment_def kMatchesInterestParentSegment_def
  kAdLastSeenInHours_def kAdvertiserLastSeenInHours_def kPriority_def

lemmas predictor_defs =
  GetFromAdPredictorScores_def GetEligibleAds_def ChooseAd_def
  GroupEligibleAdsByCreativeInstanceId_def new_ad_predictor_def
  ComputePredictorFeaturesAndScores_def ComputePredictorFeatures_def
  ComputePredictorScore_def vector_at_def checked_div_def SetIntersection_def
  kHoursPerDay_def weight_index_defs

section \<open>Properties of the segment resolver\<close>

lemma FilterSegments_loop_take:
  "count < max_count \<Longrightarrow>
   FilterSegments_loop f max_count segs count top_segments =
     top_segments @ take (nat (max_count - count)) (filter (\<lambda>s. \<not> f s) segs)"
proof (induction segs arbitrary: count top_segments)
  case Nil
  then show ?case by simp
next
  case (Cons x rest)
  show ?case
  proof (cases "f x")
    case True
    with Cons show ?thesis by simp
  next
    case False
    show ?thesis
    proof (cases "count + 1 = max_count")
      case True
      then have "nat (max_count - count) = Suc 0" by simp
      with True \<open>\<not> f x\<close> show ?thesis by simp
    next
      case False
      with Cons.prems have lt: "count + 1 < max_count" by simp
      have "nat (max_count - count) = Suc (nat (max_count - (count + 1)))"
        using lt by simp
      with False \<open>\<not> f x\<close> Cons.IH [OF lt] show ?thesis by simp
    qed
  qed
qed

lemma FilterSegments_top3:
  "FilterSegments f segs kTopTextClassificationSegmentCount =
     take 3 (filter (\<lambda>s. \<not> f s) segs)"
  by (simp add: FilterSegments_def kTopTextClassificationSegmentCount_def
      FilterSegments_loop_take)

lemma GetTopParentChildSegments_eq:
  "GetTopParentChildSegments f s =
     take 3 (filter (\<lambda>x. \<not> f x) (GetParentSegments (text_classification_segments s)))
       @ epsilon_greedy_bandit_segments s @ purchase_intent_segments s"
  by (simp add: GetTopParentChildSegments_def GetTopSegments_def FilterSegments_top3)

lemma GetTopParentSegments_eq:
  "GetTopParentSegments f s =
     take 3 (filter (\<lambda>x. \<not> f x) (text_classification_segments s))
       @ epsilon_greedy_bandit_segments s @ purchase_intent_segments s"
  by (simp add: GetTopParentSegments_def GetTopSegments_def FilterSegments_top3)

text \<open>
  C3. The claim: \<^verbatim>\<open>GetTopParentChildSegments\<close> yields the top three filtered child-level
  text-classification segments followed by all bandit and all purchase-intent segments,
  and \<^verbatim>\<open>GetTopParentSegments\<close> the same with the text-classification segments reduced to
  their parents. The code has the two branches of the conditional the other way round:
  for the single text-classification segment \<^verbatim>\<open>technology & computing-software\<close> (nothing
  filtered, one bandit and one purchase-intent segment) the parent-child variant returns
  the parent \<^verbatim>\<open>technology & computing\<close> and the parent variant returns the child.
\<close>

theorem GetTopSegments_variants_swapped:
  "GetTopParentChildSegments (\<lambda>_. False)
     \<lparr>text_classification_segments = [''technology & computing-software''],
      epsilon_greedy_bandit_segments = [''science''],
      purchase_intent_segments = [''automotive-pickup'']\<rparr>
     = [''technology & computing'', ''science'', ''automotive-pickup'']
   \<and> GetTopParentSegments (\<lambda>_. False)
     \<lparr>text_classification_segments = [''technology & computing-software''],
      epsilon_greedy_bandit_segments = [''science''],
      purchase_intent_segments = [''automotive-pickup'']\<rparr>
     = [''technology & computing-software'', ''science'', ''automotive-pickup'']"
  by (simp add: GetTopParentChildSegments_eq GetTopParentSegments_eq
      GetParentSegments_def GetParentSegment_def)

section \<open>Properties of the predictor\<close>

lemma ComputePredictorScore_closed_form:
  assumes "7 \<le> length w"
  shows "ComputePredictorScore w p =
     Inr (((if does_match_intent_child_segments p then w ! 0
            else if does_match_intent_parent_segments p then w ! 1 else 0)
         + (if does_match_interest_child_segments p then w ! 2
            else if does_match_interest_parent_segments p then w ! 3 else 0)
         + (if ad_last_seen_hours_ago p \<le> 24
            then w ! 4 * real_of_int (ad_last_seen_hours_ago p) / 24 else 0)
         + (if advertiser_last_seen_hours_ago p \<le> 24
            then w ! 5 * real_of_int (advertiser_last_seen_hours_ago p) / 24 else 0)
         + (if priority (creative_ad p) > 0
            then w ! 6 / real_of_int (priority (creative_ad p)) else 0))
        * ptr (creative_ad p))"
proof -
  have a: "vector_at w kMatchesIntentChildSegment = Inr (w ! 0)"
    "vector_at w kMatchesIntentParentSegment = Inr (w ! 1)"
    "vector_at w kMatchesInterestChildSegment = Inr (w ! 2)"
    "vector_at w kMatchesInterestParentSegment = Inr (w ! 3)"
    "vector_at w kAdLastSeenInHours = Inr (w ! 4)"
    "vector_at w kAdvertiserLastSeenInHours = Inr (w ! 5)"
    "vector_at w kPriority = Inr (w ! 6)"
    using assms by (auto simp: vector_at_def weight_index_defs)
  show ?thesis
    by (simp add: ComputePredictorScore_def bind_result_def checked_div_def kHoursPerDay_def a)
qed

lemma ComputePredictorScore_without_priority:
  assumes "6 \<le> length w" and "priority (creative_ad p) \<le> 0"
  shows "ComputePredictorScore w p =
     Inr (((if does_match_intent_child_segments p then w ! 0
            else if does_match_intent_parent_segments p then w ! 1 else 0)
         + (if does_match_interest_child_segments p then w ! 2
            else if does_match_interest_parent_segments p then w ! 3 else 0)
         + (if ad_last_seen_hours_ago p \<le> 24
            then w ! 4 * real_of_int (ad_last_seen_hours_ago p) / 24 else 0)
         + (if advertiser_last_seen_hours_ago p \<le> 24
            then w ! 5 * real_of_int (advertiser_last_seen_hours_ago p) / 24 else 0))
        * ptr (creative_ad p))"
proof -
  have a: "vector_at w kMatchesIntentChildSegment = Inr (w ! 0)"
    "vector_at w kMatchesIntentParentSegment = Inr (w ! 1)"
    "vector_at w kMatchesInterestChildSegment = Inr (w ! 2)"
    "vector_at w kMatchesInterestParentSegment = Inr (w ! 3)"
    "vector_at w kAdLastSeenInHours = Inr (w ! 4)"
    "vector_at w kAdvertiserLastSeenInHours = Inr (w ! 5)"
    using assms(1) by (auto simp: vector_at_def weight_index_defs)
  show ?thesis
    using assms(2)
    by (simp add: ComputePredictorScore_def bind_result_def checked_div_def kHoursPerDay_def a)
qed

lemma bind_result_eq_Inl:
  "bind_result r f = Inl err \<longleftrightarrow> r = Inl err \<or> (\<exists>x. r = Inr x \<and> f x = Inl err)"
  by (cases r) (simp_all add: bind_result_def)

lemma vector_at_not_division: "vector_at xs i \<noteq> Inl DivisionByZero"
  by (simp add: vector_at_def)

lemma ComputePredictorScore_never_divides_by_zero:
  "ComputePredictorScore w p \<noteq> Inl DivisionByZero"
  by (auto simp: ComputePredictorScore_def bind_result_eq_Inl vector_at_not_division
      checked_div_def kHoursPerDay_def split: if_splits)

lemma SetIntersection_empty:
  "SetIntersection lhs rhs = [] \<longleftrightarrow> set lhs \<inter> set rhs = {}"
  by (auto simp: SetIntersection_def filter_empty_conv)


text \<open>
  C5. For every ad predictor and every weight vector that has the seven slots of
  \<^verbatim>\<open>AdPredictorWeightIndex\<close>, \<^verbatim>\<open>ComputePredictorScore\<close> returns the sum in which: of the
  two intent weights only one contributes, the child-match weight when the child flag is
  set (also when both flags are set), else the parent-match weight when the parent flag is
  set; likewise for the two interest weights; each recency weight contributes
  \<open>weight * hours_ago / 24\<close> only when \<open>hours_ago\<close> is at most 24; the priority weight
  contributes \<open>weight / priority\<close> only when \<open>priority > 0\<close>; and the whole sum is
  multiplied by the ad's \<^verbatim>\<open>ptr\<close>.
\<close>

theorem ComputePredictorScore_sum:
  "7 \<le> length w \<Longrightarrow>
   ComputePredictorScore w p =
     Inr (((if does_match_intent_child_segments p then w ! kMatchesIntentChildSegment
            else if does_match_intent_parent_segments p then w ! kMatchesIntentParentSegment
            else 0)
         + (if does_match_interest_child_segments p then w ! kMatchesInterestChildSegment
            else if does_match_interest_parent_segments p
            then w ! kMatchesInterestParentSegment
            else 0)
         + (if ad_last_seen_hours_ago p \<le> 24
            then w ! kAdLastSeenInHours * real_of_int (ad_last_seen_hours_ago p) / 24
            else 0)
         + (if advertiser_last_seen_hours_ago p \<le> 24
            then w ! kAdvertiserLastSeenInHours
                   * real_of_int (advertiser_last_seen_hours_ago p) / 24
            else 0)
         + (if 0 < priority (creative_ad p)
            then w ! kPriority / real_of_int (priority (creative_ad p))
            else 0))
        * ptr (creative_ad p))"
  by (simp add: ComputePredictorScore_closed_form weight_index_defs)

text \<open>
  C5 at a concrete predictor: both intent flags set (the child weight 1 counts, the parent
  weight 2 does not), only the interest parent flag set (weight 4), the ad last seen 12
  hours ago (5 * 12 / 24), the advertiser 30 hours ago (nothing), priority 2 (7 / 2) and
  \<^verbatim>\<open>ptr\<close> one half: (1 + 4 + 5/2 + 7/2) / 2.
\<close>

theorem ComputePredictorScore_sum_witness:
  "7 \<le> length [1, 2, 3, 4, 5, 6, 7 :: real]
   \<and> ComputePredictorScore [1, 2, 3, 4, 5, 6, 7]
       \<lparr>creative_ad = (example_ad ''a1'' ''foo'' 2)\<lparr>ptr := 1 / 2\<rparr>, segments = [''foo''],
        does_match_intent_child_segments = True, does_match_intent_parent_segments = True,
        does_match_interest_child_segments = False,
        does_match_interest_parent_segments = True,
        ad_last_seen_hours_ago = 12, advertiser_last_seen_hours_ago = 30, score = 0\<rparr>
     = Inr (11 / 2)"
  using ComputePredictorScore_sum [of "[1, 2, 3, 4, 5, 6, 7]"
    "\<lparr>creative_ad = (example_ad ''a1'' ''foo'' 2)\<lparr>ptr := 1 / 2\<rparr>, segments = [''foo''],
      does_match_intent_child_segments = True, does_match_intent_parent_segments = True,
      does_match_interest_child_segments = False,
      does_match_interest_parent_segments = True,
      ad_last_seen_hours_ago = 12, advertiser_last_seen_hours_ago = 30, score = 0\<rparr>"]
  by (simp add: example_ad_def weight_index_defs)

text \<open>
  C6. \<^verbatim>\<open>ComputePredictorScore\<close> never divides by zero, whatever the predictor and the
  weights. When the ad's priority is 0 the priority term is skipped entirely: the score
  is returned even when the weight vector has no priority slot, and with the slot present
  the result does not depend on what the slot holds. When the priority is positive the
  divisor is that priority, which is not zero: the score is the one the same predictor
  would get with priority 0, with \<open>weight / priority\<close> added before the multiplication
  by \<^verbatim>\<open>ptr\<close>.
\<close>

theorem ComputePredictorScore_no_division_by_zero:
  "ComputePredictorScore w p \<noteq> Inl DivisionByZero
   \<and> (6 \<le> length w \<and> priority (creative_ad p) = 0
        \<longrightarrow> (\<exists>s. ComputePredictorScore w p = Inr s))
   \<and> (7 \<le> length w \<and> priority (creative_ad p) = 0
        \<longrightarrow> (\<forall>x. ComputePredictorScore (w[kPriority := x]) p = ComputePredictorScore w p))
   \<and> (7 \<le> length w \<and> 0 < priority (creative_ad p)
        \<longrightarrow> real_of_int (priority (creative_ad p)) \<noteq> 0
          \<and> (\<exists>b. ComputePredictorScore w (p\<lparr>creative_ad := (creative_ad p)\<lparr>priority := 0\<rparr>\<rparr>)
                    = Inr (b * ptr (creative_ad p))
                \<and> ComputePredictorScore w p
                    = Inr ((b + w ! kPriority / real_of_int (priority (creative_ad p)))
                           * ptr (creative_ad p))))"
proof (intro conjI impI allI)
  show "ComputePredictorScore w p \<noteq> Inl DivisionByZero"
    by (rule ComputePredictorScore_never_divides_by_zero)
next
  assume "6 \<le> length w \<and> priority (creative_ad p) = 0"
  then show "\<exists>s. ComputePredictorScore w p = Inr s"
    by (simp add: ComputePredictorScore_without_priority)
next
  fix x
  assume h: "7 \<le> length w \<and> priority (creative_ad p) = 0"
  then have "7 \<le> length (w[kPriority := x])" by simp
  with h show "ComputePredictorScore (w[kPriority := x]) p = ComputePredictorScore w p"
    by (simp add: ComputePredictorScore_closed_form kPriority_def)
next
  assume h: "7 \<le> length w \<and> 0 < priority (creative_ad p)"
  then show "real_of_int (priority (creative_ad p)) \<noteq> 0" by simp
  from h show "\<exists>b. ComputePredictorScore w (p\<lparr>creative_ad := (creative_ad p)\<lparr>priority := 0\<rparr>\<rparr>)
                    = Inr (b * ptr (creative_ad p))
                \<and> ComputePredictorScore w p
                    = Inr ((b + w ! kPriority / real_of_int (priority (creative_ad p)))
                           * ptr (creative_ad p))"
    by (simp add: ComputePredictorScore_closed_form kPriority_def)
qed

text \<open>
  C6 at concrete predictors: with priority 0 and only the six slots before the priority
  slot the score is returned, and changing the priority weight from 7 to 100 leaves it
  the same; with priority 4 the term 7 / 4 is added.
\<close>

theorem ComputePredictorScore_no_division_by_zero_witness:
  "priority (creative_ad (new_ad_predictor (example_ad ''a1'' ''foo'' 0))) = 0
   \<and> ComputePredictorScore [1, 2, 3, 4, 5, 6] (new_ad_predictor (example_ad ''a1'' ''foo'' 0))
       = Inr 0
   \<and> ComputePredictorScore ([1, 2, 3, 4, 5, 6, 7][kPriority := 100])
         (new_ad_predictor (example_ad ''a1'' ''foo'' 0))
       = ComputePredictorScore [1, 2, 3, 4, 5, 6, 7]
           (new_ad_predictor (example_ad ''a1'' ''foo'' 0))
   \<and> 0 < priority (creative_ad (new_ad_predictor (example_ad ''a1'' ''foo'' 4)))
   \<and> ComputePredictorScore [1, 2, 3, 4, 5, 6, 7] (new_ad_predictor (example_ad ''a1'' ''foo'' 4))
       = Inr (7 / 4)"
  using ComputePredictorScore_no_division_by_zero
          [of "[1, 2, 3, 4, 5, 6]" "new_ad_predictor (example_ad ''a1'' ''foo'' 0)"]
        ComputePredictorScore_no_division_by_zero
          [of "[1, 2, 3, 4, 5, 6, 7]" "new_ad_predictor (example_ad ''a1'' ''foo'' 0)"]
        ComputePredictorScore_no_division_by_zero
          [of "[1, 2, 3, 4, 5, 6, 7]" "new_ad_predictor (example_ad ''a1'' ''foo'' 4)"]
  by (simp add: predictor_defs bind_result_def example_ad_def)

text \<open>
  C7. For every ad predictor, ad-event list, interest segment list and intent segment list,
  \<^verbatim>\<open>ComputePredictorFeatures\<close> sets the intent-child flag iff the intent segments intersect
  the ad's segments, the intent-parent flag iff the parents of the interest segments (not
  of the intent segments) intersect the ad's segments, the interest-child flag iff the
  interest segments intersect the ad's segments, and the interest-parent flag iff the
  parents of the interest segments intersect the ad's segments.
\<close>

theorem ComputePredictorFeatures_flags:
  "(does_match_intent_child_segments
       (ComputePredictorFeatures pc p ad_events interest intent)
     \<longleftrightarrow> set intent \<inter> set (segments p) \<noteq> {})
   \<and> (does_match_intent_parent_segments
       (ComputePredictorFeatures pc p ad_events interest intent)
     \<longleftrightarrow> set (GetParentSegments interest) \<inter> set (segments p) \<noteq> {})
   \<and> (does_match_interest_child_segments
       (ComputePredictorFeatures pc p ad_events interest intent)
     \<longleftrightarrow> set interest \<inter> set (segments p) \<noteq> {})
   \<and> (does_match_interest_parent_segments
       (ComputePredictorFeatures pc p ad_events interest intent)
     \<longleftrightarrow> set (GetParentSegments interest) \<inter> set (segments p) \<noteq> {})"
  by (simp add: ComputePredictorFeatures_def Let_def SetIntersection_empty)

text \<open>
  C7 at a concrete input: an ad on segment \<^verbatim>\<open>foo\<close>, interest segments \<^verbatim>\<open>foo-bar3\<close> and
  intent segments \<^verbatim>\<open>baz-bar1\<close>, \<^verbatim>\<open>baz-bar2\<close>. No child flag is set; both parent flags are
  set, the intent-parent flag through the parent \<^verbatim>\<open>foo\<close> of the interest segment although
  no intent segment has that parent.
\<close>

theorem ComputePredictorFeatures_flags_witness:
  "\<not> does_match_intent_child_segments
       (ComputePredictorFeatures example_predictor_collaborators
          (new_ad_predictor (example_ad ''a1'' ''foo'' 1)) []
          [''foo-bar3''] [''baz-bar1'', ''baz-bar2''])
   \<and> does_match_intent_parent_segments
       (ComputePredictorFeatures example_predictor_collaborators
          (new_ad_predictor (example_ad ''a1'' ''foo'' 1)) []
          [''foo-bar3''] [''baz-bar1'', ''baz-bar2''])
   \<and> \<not> does_match_interest_child_segments
       (ComputePredictorFeatures example_predictor_collaborators
          (new_ad_predictor (example_ad ''a1'' ''foo'' 1)) []
          [''foo-bar3''] [''baz-bar1'', ''baz-bar2''])
   \<and> does_match_interest_parent_segments
       (ComputePredictorFeatures example_predictor_collaborators
          (new_ad_predictor (example_ad ''a1'' ''foo'' 1)) []
          [''foo-bar3''] [''baz-bar1'', ''baz-bar2''])
   \<and> set (GetParentSegments [''baz-bar1'', ''baz-bar2''])
       \<inter> set (segments (new_ad_predictor (example_ad ''a1'' ''foo'' 1))) = {}"
  using ComputePredictorFeatures_flags [of example_predictor_collaborators
    "new_ad_predictor (example_ad ''a1'' ''foo'' 1)" "[]"
    "[''foo-bar3'']" "[''baz-bar1'', ''baz-bar2'']"]
  by (simp add: new_ad_predictor_def example_ad_def GetParentSegments_def
      GetParentSegment_def)

section \<open>Properties of the eligibility pipeline\<close>

lemma round_robin_stable:
  assumes "ys \<noteq> []"
    and "set ys \<subseteq> set (let unseen = filter P xs in if unseen = [] then xs else unseen)"
  shows "(let unseen = filter P ys in if unseen = [] then ys else unseen) = ys"
proof (cases "filter P xs = []")
  case True
  with assms(2) have "\<forall>y \<in> set ys. \<not> P y"
    by (auto simp: filter_empty_conv)
  then have "filter P ys = []" by (simp add: filter_empty_conv)
  then show ?thesis by simp
next
  case False
  with assms(2) have "\<forall>y \<in> set ys. P y" by auto
  then have "filter P ys = ys" by (simp add: filter_id_conv)
  with assms(1) show ?thesis by simp
qed

lemma FilterSeenAdvertisers_stable:
  "ys \<noteq> [] \<Longrightarrow> set ys \<subseteq> set (FilterSeenAdvertisersAndRoundRobinIfNeeded c xs) \<Longrightarrow>
   FilterSeenAdvertisersAndRoundRobinIfNeeded c ys = ys"
  unfolding FilterSeenAdvertisersAndRoundRobinIfNeeded_def by (rule round_robin_stable)

lemma FilterSeenAds_stable:
  "ys \<noteq> [] \<Longrightarrow> set ys \<subseteq> set (FilterSeenAdsAndRoundRobinIfNeeded c xs) \<Longrightarrow>
   FilterSeenAdsAndRoundRobinIfNeeded c ys = ys"
  unfolding FilterSeenAdsAndRoundRobinIfNeeded_def by (rule round_robin_stable)

lemma FilterSeenAdvertisers_subset:
  "set (FilterSeenAdvertisersAndRoundRobinIfNeeded c xs) \<subseteq> set xs"
  by (auto simp: FilterSeenAdvertisersAndRoundRobinIfNeeded_def Let_def)

lemma FilterSeenAds_subset:
  "set (FilterSeenAdsAndRoundRobinIfNeeded c xs) \<subseteq> set xs"
  by (auto simp: FilterSeenAdsAndRoundRobinIfNeeded_def Let_def)

lemma FilterSeenAdvertisers_length:
  "length (FilterSeenAdvertisersAndRoundRobinIfNeeded c xs) \<le> length xs"
  by (simp add: FilterSeenAdvertisersAndRoundRobinIfNeeded_def Let_def)

lemma FilterSeenAds_length:
  "length (FilterSeenAdsAndRoundRobinIfNeeded c xs) \<le> length xs"
  by (simp add: FilterSeenAdsAndRoundRobinIfNeeded_def Let_def)

lemma highest_priority_const:
  "ys \<noteq> [] \<Longrightarrow> \<forall>y \<in> set ys. priority y = m \<Longrightarrow> highest_priority ys = m"
  by (induction ys rule: highest_priority.induct) auto

lemma PrioritizeAds_stable:
  assumes "ys \<noteq> []" and "set ys \<subseteq> set (PrioritizeAds xs)"
  shows "PrioritizeAds ys = ys"
proof -
  from assms(2) have all: "\<forall>y \<in> set ys. priority y = highest_priority xs"
    by (auto simp: PrioritizeAds_def)
  with assms(1) have "highest_priority ys = highest_priority xs"
    by (rule highest_priority_const)
  with all show ?thesis by (simp add: PrioritizeAds_def filter_id_conv)
qed

lemma FilterIneligibleAds_Nil: "FilterIneligibleAds c e [] ad_events history = []"
  by (simp add: FilterIneligibleAds_def)

lemma FilterIneligibleAds_singleton:
  "FilterIneligibleAds c e [ad] ad_events history =
     (if ShouldExcludeAd c ad_events history ad \<or> creative_instance_id ad = []
         \<or> ShouldPaceAd c ad
      then [] else [ad])"
  by (simp add: pipeline_defs)

lemma ApplyFrequencyCapping_default:
  "ApplyFrequencyCapping c ads CreativeAdInfo_default ad_events history =
     filter (\<lambda>a. \<not> ShouldExcludeAd c ad_events history a \<and> creative_instance_id a \<noteq> []) ads"
  by (simp add: ApplyFrequencyCapping_def CreativeAdInfo_default_def)

lemma GetEligibleAds_singleton:
  "GetForDimensions c dims = (True, [ad]) \<Longrightarrow>
   GetEligibleAds c pc e interest intent ad_events history dims =
     logged (ForDimensions dims)
       (if ApplyFrequencyCapping c [ad] CreativeAdInfo_default ad_events history = []
        then Inr ([], True, None)
        else ChooseAd pc (ApplyFrequencyCapping c [ad] CreativeAdInfo_default ad_events history)
               ad_events interest intent)"
  by (simp add: GetEligibleAds_def ShouldCapLastServedAd_def Let_def)

text \<open>
  C4, as stated, fails. The claim: whenever at most one ad survives the stages before
  frequency capping, \<^verbatim>\<open>ShouldCapLastServedAd\<close> is false and the last-served exclusion is
  skipped. The code tests the list handed to \<^verbatim>\<open>FilterIneligibleAds\<close>, not the survivors.
  With two ads in the input, the advertiser of the first already seen and the second the
  last served ad: the two seen stages leave the second ad alone, \<^verbatim>\<open>ShouldCapLastServedAd\<close>
  of the input is true, and the one remaining candidate is excluded for being the last
  served ad (with no last served ad it is returned).
\<close>

theorem single_survivor_is_capped_as_last_served:
  "FilterSeenAdsAndRoundRobinIfNeeded
     ((example_collaborators []) \<lparr>seen_advertisers := [''advertiser-a1'']\<rparr>)
     (FilterSeenAdvertisersAndRoundRobinIfNeeded
        ((example_collaborators []) \<lparr>seen_advertisers := [''advertiser-a1'']\<rparr>)
        [example_ad ''a1'' ''untargeted'' 1, example_ad ''a2'' ''untargeted'' 1])
     = [example_ad ''a2'' ''untargeted'' 1]
   \<and> ShouldCapLastServedAd
       [example_ad ''a1'' ''untargeted'' 1, example_ad ''a2'' ''untargeted'' 1] = True
   \<and> FilterIneligibleAds
       ((example_collaborators []) \<lparr>seen_advertisers := [''advertiser-a1'']\<rparr>)
       (example_engine (example_ad ''a2'' ''untargeted'' 1))
       [example_ad ''a1'' ''untargeted'' 1, example_ad ''a2'' ''untargeted'' 1] [] []
     = []
   \<and> FilterIneligibleAds
       ((example_collaborators []) \<lparr>seen_advertisers := [''advertiser-a1'']\<rparr>)
       (example_engine CreativeAdInfo_default)
       [example_ad ''a1'' ''untargeted'' 1, example_ad ''a2'' ''untargeted'' 1] [] []
     = [example_ad ''a2'' ''untargeted'' 1]"
  by (simp add: pipeline_defs example_defs)

text \<open>
  C4, amended. For every input list of exactly one ad, \<^verbatim>\<open>ShouldCapLastServedAd\<close> returns
  false and the result of \<^verbatim>\<open>FilterIneligibleAds\<close> does not depend on the last served ad;
  so a sole candidate with a non-empty creative instance id that no exclusion rule and no
  pacing decision removes is returned even when it is itself the last served ad.
\<close>

theorem single_input_ad_is_not_capped_as_last_served:
  "ShouldCapLastServedAd [ad] = False
   \<and> (\<forall>x. FilterIneligibleAds c (SetLastServedAd e x) [ad] ad_events history
            = FilterIneligibleAds c e [ad] ad_events history)
   \<and> (creative_instance_id ad \<noteq> [] \<and> \<not> ShouldExcludeAd c ad_events history ad
        \<and> \<not> ShouldPaceAd c ad
      \<longrightarrow> FilterIneligibleAds c (SetLastServedAd e ad) [ad] ad_events history = [ad])"
  by (simp add: FilterIneligibleAds_singleton ShouldCapLastServedAd_def)

text \<open>
  C4, amended, at a concrete input: the only ad of the input is the last served ad and is
  returned.
\<close>

theorem single_input_ad_is_not_capped_as_last_served_witness:
  "creative_instance_id (example_ad ''a1'' ''untargeted'' 1) \<noteq> []
   \<and> \<not> ShouldExcludeAd (example_collaborators []) [] [] (example_ad ''a1'' ''untargeted'' 1)
   \<and> \<not> ShouldPaceAd (example_collaborators []) (example_ad ''a1'' ''untargeted'' 1)
   \<and> last_served_creative_ad
       (SetLastServedAd (example_engine CreativeAdInfo_default)
          (example_ad ''a1'' ''untargeted'' 1))
       = example_ad ''a1'' ''untargeted'' 1
   \<and> FilterIneligibleAds (example_collaborators [])
       (SetLastServedAd (example_engine CreativeAdInfo_default)
          (example_ad ''a1'' ''untargeted'' 1))
       [example_ad ''a1'' ''untargeted'' 1] [] []
     = [example_ad ''a1'' ''untargeted'' 1]"
  using single_input_ad_is_not_capped_as_last_served
    [of "example_ad ''a1'' ''untargeted'' 1" "example_collaborators []"
        "example_engine CreativeAdInfo_default" "[]" "[]"]
  by (simp add: example_defs SetLastServedAd_def)

text \<open>
  C9, as stated, fails. The claim: \<^verbatim>\<open>FilterIneligibleAds\<close> applied to its own output, with
  the same histories and engine state, returns that output unchanged. Take two ads, the
  first with the empty string as creative instance id, the second the last served ad. The
  first pass sees two ads, compares with the last served ad and returns the first ad alone.
  The second pass sees one ad, compares with the default-constructed ad, whose instance id
  is the empty string, and removes it.
\<close>

theorem FilterIneligibleAds_second_pass_removes_empty_id:
  "FilterIneligibleAds (example_collaborators [])
       (example_engine (example_ad ''a2'' ''untargeted'' 1))
       [example_ad [] ''untargeted'' 1, example_ad ''a2'' ''untargeted'' 1] [] []
     = [example_ad [] ''untargeted'' 1]
   \<and> FilterIneligibleAds (example_collaborators [])
       (example_engine (example_ad ''a2'' ''untargeted'' 1))
       (FilterIneligibleAds (example_collaborators [])
         (example_engine (example_ad ''a2'' ''untargeted'' 1))
         [example_ad [] ''untargeted'' 1, example_ad ''a2'' ''untargeted'' 1] [] []) [] []
     = []"
  by (simp add: pipeline_defs example_defs)

text \<open>
  C9, amended. For every ad list in which no creative instance id is the empty string,
  every ad-event history and browsing history, with the same collaborators (seen memory,
  exclusion rules and pacing decisions) and the same last served ad in both passes,
  applying \<^verbatim>\<open>FilterIneligibleAds\<close> to its own output returns that output unchanged.
\<close>

theorem FilterIneligibleAds_idempotent:
  assumes ids: "\<forall>ad \<in> set ads. creative_instance_id ad \<noteq> []"
  shows "FilterIneligibleAds c e (FilterIneligibleAds c e ads ad_events history) ad_events history
           = FilterIneligibleAds c e ads ad_events history"
proof (cases "FilterIneligibleAds c e ads ad_events history = []")
  case True
  then show ?thesis by (simp add: FilterIneligibleAds_Nil)
next
  case False
  define ls where "ls = (if ShouldCapLastServedAd ads then last_served_creative_ad e
                         else CreativeAdInfo_default)"
  define A where "A = FilterSeenAdvertisersAndRoundRobinIfNeeded c ads"
  define B where "B = FilterSeenAdsAndRoundRobinIfNeeded c A"
  define C where "C = ApplyFrequencyCapping c B ls ad_events history"
  define D where "D = PaceAds c C"
  define out where "out = PrioritizeAds D"
  from False have ne: "ads \<noteq> []" by (auto simp: FilterIneligibleAds_def)
  then have out: "FilterIneligibleAds c e ads ad_events history = out"
    by (simp add: FilterIneligibleAds_def Let_def out_def D_def C_def B_def A_def ls_def)
  with False have out_ne: "out \<noteq> []" by simp
  have sub_D: "set out \<subseteq> set D" by (auto simp: out_def PrioritizeAds_def)
  have DC: "set D \<subseteq> set C" by (auto simp: D_def PaceAds_def)
  have CB: "set C \<subseteq> set B" by (auto simp: C_def ApplyFrequencyCapping_def)
  have BA: "set B \<subseteq> set A" unfolding B_def by (rule FilterSeenAds_subset)
  have Aads: "set A \<subseteq> set ads" unfolding A_def by (rule FilterSeenAdvertisers_subset)
  have len: "length out \<le> length ads"
  proof -
    have "length out \<le> length D" by (simp add: out_def PrioritizeAds_def)
    also have "\<dots> \<le> length C" by (simp add: D_def PaceAds_def)
    also have "\<dots> \<le> length B" by (simp add: C_def ApplyFrequencyCapping_def)
    also have "\<dots> \<le> length A" unfolding B_def by (rule FilterSeenAds_length)
    also have "\<dots> \<le> length ads" unfolding A_def by (rule FilterSeenAdvertisers_length)
    finally show ?thesis .
  qed
  define ls' where "ls' = (if ShouldCapLastServedAd out then last_served_creative_ad e
                         else CreativeAdInfo_default)"
  have s1: "FilterSeenAdvertisersAndRoundRobinIfNeeded c out = out"
    using out_ne sub_D DC CB BA unfolding A_def by (intro FilterSeenAdvertisers_stable) auto
  have s2: "FilterSeenAdsAndRoundRobinIfNeeded c out = out"
    using out_ne sub_D DC CB unfolding B_def by (intro FilterSeenAds_stable) auto
  have inC: "\<forall>y \<in> set out. \<not> ShouldExcludeAd c ad_events history y
                \<and> creative_instance_id y \<noteq> creative_instance_id ls"
    using sub_D DC by (auto simp: C_def ApplyFrequencyCapping_def)
  have idls': "\<forall>y \<in> set out. creative_instance_id y \<noteq> creative_instance_id ls'"
  proof (cases "length out = 1")
    case True
    then have "ls' = CreativeAdInfo_default" by (simp add: ls'_def ShouldCapLastServedAd_def)
    moreover have "\<forall>y \<in> set out. creative_instance_id y \<noteq> []"
      using ids sub_D DC CB BA Aads by blast
    ultimately show ?thesis by (simp add: CreativeAdInfo_default_def)
  next
    case False
    with out_ne len have "length ads \<noteq> 1" by (cases out) auto
    with False have "ls' = ls" by (simp add: ls'_def ls_def ShouldCapLastServedAd_def)
    with inC show ?thesis by simp
  qed
  have s3: "ApplyFrequencyCapping c out ls' ad_events history = out"
    using inC idls' by (simp add: ApplyFrequencyCapping_def filter_id_conv)
  have s4: "PaceAds c out = out"
    using sub_D by (auto simp: PaceAds_def D_def filter_id_conv)
  have s5: "PrioritizeAds out = out"
    using out_ne unfolding out_def by (intro PrioritizeAds_stable) auto
  have "FilterIneligibleAds c e out ad_events history = out"
    using out_ne by (simp add: FilterIneligibleAds_def Let_def s1 s2 s3 [unfolded ls'_def] s4 s5)
  with out show ?thesis by simp
qed

text \<open>
  C9, amended, at a concrete input: three ads with non-empty instance ids, the first of
  them the last served ad and the third of lower priority. The first pass returns the
  second ad alone, and so does the second pass.
\<close>

theorem FilterIneligibleAds_idempotent_witness:
  "creative_instance_id (example_ad ''a1'' ''untargeted'' 1) \<noteq> []
   \<and> creative_instance_id (example_ad ''a2'' ''untargeted'' 1) \<noteq> []
   \<and> creative_instance_id (example_ad ''a3'' ''untargeted'' 2) \<noteq> []
   \<and> FilterIneligibleAds (example_collaborators [])
       (example_engine (example_ad ''a1'' ''untargeted'' 1))
       [example_ad ''a1'' ''untargeted'' 1, example_ad ''a2'' ''untargeted'' 1,
        example_ad ''a3'' ''untargeted'' 2] [] []
     = [example_ad ''a2'' ''untargeted'' 1]
   \<and> FilterIneligibleAds (example_collaborators [])
       (example_engine (example_ad ''a1'' ''untargeted'' 1))
       (FilterIneligibleAds (example_collaborators [])
         (example_engine (example_ad ''a1'' ''untargeted'' 1))
         [example_ad ''a1'' ''untargeted'' 1, example_ad ''a2'' ''untargeted'' 1,
          example_ad ''a3'' ''untargeted'' 2] [] []) [] []
     = [example_ad ''a2'' ''untargeted'' 1]"
proof -
  have ids: "\<forall>ad \<in> set [example_ad ''a1'' ''untargeted'' 1, example_ad ''a2'' ''untargeted'' 1,
        example_ad ''a3'' ''untargeted'' 2]. creative_instance_id ad \<noteq> []"
    by (simp add: example_ad_def)
  have first_pass: "FilterIneligibleAds (example_collaborators [])
       (example_engine (example_ad ''a1'' ''untargeted'' 1))
       [example_ad ''a1'' ''untargeted'' 1, example_ad ''a2'' ''untargeted'' 1,
        example_ad ''a3'' ''untargeted'' 2] [] []
     = [example_ad ''a2'' ''untargeted'' 1]"
    by (simp add: pipeline_defs example_defs)
  show ?thesis
    using FilterIneligibleAds_idempotent [OF ids, of "example_collaborators []"
      "example_engine (example_ad ''a1'' ''untargeted'' 1)" "[]" "[]"] first_pass
    by (simp add: example_ad_def)
qed

text \<open>
  C10. When the input list has exactly one ad, \<^verbatim>\<open>ShouldCapLastServedAd\<close> is false and both
  \<^verbatim>\<open>FilterIneligibleAds\<close> and \<^verbatim>\<open>GetEligibleAds\<close> hand the default-constructed
  \<^verbatim>\<open>CreativeAdInfo\<close>, whose creative instance id is the empty string, to
  \<^verbatim>\<open>ApplyFrequencyCapping\<close>, which compares the instance id of every candidate with it.
  So a sole candidate with a non-empty instance id is never removed by the last-served
  comparison (only an exclusion rule removes it), and a candidate whose instance id is the
  empty string is always removed by it.
\<close>

theorem default_last_served_ad_comparison:
  "ShouldCapLastServedAd [ad] = False
   \<and> creative_instance_id CreativeAdInfo_default = []
   \<and> FilterIneligibleAds c e [ad] ad_events history =
       PrioritizeAds (PaceAds c (ApplyFrequencyCapping c
         (FilterSeenAdsAndRoundRobinIfNeeded c
            (FilterSeenAdvertisersAndRoundRobinIfNeeded c [ad]))
         CreativeAdInfo_default ad_events history))
   \<and> (GetForDimensions c dims = (True, [ad]) \<longrightarrow>
        GetEligibleAds c pc e interest intent ad_events history dims =
          logged (ForDimensions dims)
            (if ApplyFrequencyCapping c [ad] CreativeAdInfo_default ad_events history = []
             then Inr ([], True, None)
             else ChooseAd pc
                    (ApplyFrequencyCapping c [ad] CreativeAdInfo_default ad_events history)
                    ad_events interest intent))
   \<and> ApplyFrequencyCapping c ads CreativeAdInfo_default ad_events history =
       filter (\<lambda>a. \<not> ShouldExcludeAd c ad_events history a \<and> creative_instance_id a \<noteq> [])
         ads
   \<and> (creative_instance_id ad \<noteq> [] \<longrightarrow>
        ApplyFrequencyCapping c [ad] CreativeAdInfo_default ad_events history =
          (if ShouldExcludeAd c ad_events history ad then [] else [ad]))
   \<and> (creative_instance_id ad = [] \<longrightarrow>
        ApplyFrequencyCapping c [ad] CreativeAdInfo_default ad_events history = []
        \<and> FilterIneligibleAds c e [ad] ad_events history = []
        \<and> (GetForDimensions c dims = (True, [ad]) \<longrightarrow>
             GetEligibleAds c pc e interest intent ad_events history dims =
               Inr ([ForDimensions dims], True, None)))"
proof (intro conjI impI)
  show "ShouldCapLastServedAd [ad] = False" by (simp add: ShouldCapLastServedAd_def)
  show "creative_instance_id CreativeAdInfo_default = []"
    by (simp add: CreativeAdInfo_default_def)
  show "FilterIneligibleAds c e [ad] ad_events history =
       PrioritizeAds (PaceAds c (ApplyFrequencyCapping c
         (FilterSeenAdsAndRoundRobinIfNeeded c
            (FilterSeenAdvertisersAndRoundRobinIfNeeded c [ad]))
         CreativeAdInfo_default ad_events history))"
    by (simp add: FilterIneligibleAds_def ShouldCapLastServedAd_def Let_def)
  show "ApplyFrequencyCapping c ads CreativeAdInfo_default ad_events history =
       filter (\<lambda>a. \<not> ShouldExcludeAd c ad_events history a \<and> creative_instance_id a \<noteq> [])
         ads"
    by (rule ApplyFrequencyCapping_default)
next
  assume "GetForDimensions c dims = (True, [ad])"
  then show "GetEligibleAds c pc e interest intent ad_events history dims =
          logged (ForDimensions dims)
            (if ApplyFrequencyCapping c [ad] CreativeAdInfo_default ad_events history = []
             then Inr ([], True, None)
             else ChooseAd pc
                    (ApplyFrequencyCapping c [ad] CreativeAdInfo_default ad_events history)
                    ad_events interest intent)"
    by (rule GetEligibleAds_singleton)
next
  assume "creative_instance_id ad \<noteq> []"
  then show "ApplyFrequencyCapping c [ad] CreativeAdInfo_default ad_events history =
          (if ShouldExcludeAd c ad_events history ad then [] else [ad])"
    by (simp add: ApplyFrequencyCapping_default)
next
  assume empty: "creative_instance_id ad = []"
  then show capped: "ApplyFrequencyCapping c [ad] CreativeAdInfo_default ad_events history = []"
    by (simp add: ApplyFrequencyCapping_default)
  from empty show "FilterIneligibleAds c e [ad] ad_events history = []"
    by (simp add: FilterIneligibleAds_singleton)
  assume "GetForDimensions c dims = (True, [ad])"
  with capped show "GetEligibleAds c pc e interest intent ad_events history dims =
               Inr ([ForDimensions dims], True, None)"
    by (simp add: GetEligibleAds_singleton logged_def bind_result_def)
qed

text \<open>
  C10 at concrete inputs: a catalog of one ad with instance id \<^verbatim>\<open>a1\<close> that is also the
  last served ad survives frequency capping; a catalog of one ad whose instance id is the
  empty string yields no ad, from either entry point.
\<close>

theorem default_last_served_ad_comparison_witness:
  "creative_instance_id (example_ad ''a1'' ''untargeted'' 1) \<noteq> []
   \<and> ApplyFrequencyCapping (example_collaborators [example_ad ''a1'' ''untargeted'' 1])
       [example_ad ''a1'' ''untargeted'' 1] CreativeAdInfo_default [] []
     = [example_ad ''a1'' ''untargeted'' 1]
   \<and> creative_instance_id (example_ad [] ''untargeted'' 1) = []
   \<and> GetForDimensions (example_collaborators [example_ad [] ''untargeted'' 1]) []
     = (True, [example_ad [] ''untargeted'' 1])
   \<and> FilterIneligibleAds (example_collaborators [example_ad [] ''untargeted'' 1])
       (example_engine (example_ad ''a1'' ''untargeted'' 1))
       [example_ad [] ''untargeted'' 1] [] []
     = []
   \<and> GetEligibleAds (example_collaborators [example_ad [] ''untargeted'' 1])
       example_predictor_collaborators (example_engine (example_ad ''a1'' ''untargeted'' 1))
       [] [] [] [] []
     = Inr ([ForDimensions []], True, None)"
  using default_last_served_ad_comparison
      [where ad = "example_ad ''a1'' ''untargeted'' 1"
         and c = "example_collaborators [example_ad ''a1'' ''untargeted'' 1]"
         and e = "example_engine (example_ad ''a1'' ''untargeted'' 1)"
         and pc = example_predictor_collaborators and ads = "[]" and dims = "[]"
         and ad_events = "[]" and history = "[]" and interest = "[]" and intent = "[]"]
    default_last_served_ad_comparison
      [where ad = "example_ad [] ''untargeted'' 1"
         and c = "example_collaborators [example_ad [] ''untargeted'' 1]"
         and e = "example_engine (example_ad ''a1'' ''untargeted'' 1)"
         and pc = example_predictor_collaborators and ads = "[]" and dims = "[]"
         and ad_events = "[]" and history = "[]" and interest = "[]" and intent = "[]"]
  by (simp add: example_defs pipeline_defs GetEligibleAds_def logged_def bind_result_def)

section \<open>Properties of the cascade\<close>








section \<open>Properties of the selection by predictor scores\<close>








lemma keys_map_insert: "fst ` set (map_insert k v m) = insert k (fst ` set m)"
proof (induction m)
  case Nil
  then show ?case by simp
next
  case (Cons x m)
  obtain k' v' where x: "x = (k', v')" by (cases x)
  show ?case
  proof (cases "k = k'")
    case True
    then show ?thesis by (simp add: x)
  next
    case False
    then show ?thesis using Cons.IH by (cases "k < k'") (simp_all add: x insert_commute)
  qed
qed

lemma sorted_map_insert:
  "sorted_wrt (<) (map fst m) \<Longrightarrow> sorted_wrt (<) (map fst (map_insert k v m))"
proof (induction m)
  case Nil
  then show ?case by simp
next
  case (Cons x m)
  obtain k' v' where x: "x = (k', v')" by (cases x)
  from Cons.prems have above: "\<forall>y \<in> fst ` set m. k' < y" and m: "sorted_wrt (<) (map fst m)"
    by (auto simp: x)
  show ?case
  proof (cases "k = k'")
    case True
    with Cons.prems show ?thesis by (simp add: x)
  next
    case False
    show ?thesis
    proof (cases "k < k'")
      case True
      with above have "\<forall>y \<in> fst ` set m. k < y" by auto
      with True False Cons.prems show ?thesis by (auto simp: x)
    next
      case ge: False
      with False have "k' < k" by simp
      with above have "\<forall>y \<in> fst ` set (map_insert k v m). k' < y"
        by (simp add: keys_map_insert)
      with False ge Cons.IH [OF m] show ?thesis by (auto simp: x)
    qed
  qed
qed

lemma map_fst_add_segment:
  "map fst (map (\<lambda>(k, p). if k = x then (k, g p) else (k, p)) acc) = map fst acc"
  by (induction acc) auto


lemma GroupEligibleAds_loop_sorted:
  "sorted_wrt (<) (map fst acc) \<Longrightarrow> sorted_wrt (<) (map fst (GroupEligibleAds_loop ads acc))"
proof (induction ads arbitrary: acc)
  case Nil
  then show ?case by simp
next
  case (Cons ad rest)
  show ?case
  proof (cases "creative_instance_id ad \<in> fst ` set acc")
    case True
    let ?acc' = "map (\<lambda>(k, p). if k = creative_instance_id ad
                 then (k, p\<lparr>segments := segments p @ [segment ad]\<rparr>) else (k, p)) acc"
    from Cons.prems have "sorted_wrt (<) (map fst ?acc')" by (simp only: map_fst_add_segment)
    then have "sorted_wrt (<) (map fst (GroupEligibleAds_loop rest ?acc'))" by (rule Cons.IH)
    with True show ?thesis by simp
  next
    case False
    from Cons.prems
    have "sorted_wrt (<) (map fst (map_insert (creative_instance_id ad) (new_ad_predictor ad) acc))"
      by (rule sorted_map_insert)
    then have "sorted_wrt (<) (map fst (GroupEligibleAds_loop rest
        (map_insert (creative_instance_id ad) (new_ad_predictor ad) acc)))"
      by (rule Cons.IH)
    with False show ?thesis by simp
  qed
qed










end
